theory Spec2Isabelle
  imports Main "HOL-Library.AList"
begin

section \<open>JavaScript values\<close>

text \<open>
  The export payload, the plugin options and the platform's parsed response are
  JavaScript values. A number is represented by its canonical rendering
  (\<open>Number.prototype.toString\<close>: \<open>''42''\<close>, \<open>''0.5''\<close>, \<open>''NaN''\<close>); both zeros
  render as \<open>''0''\<close>. The code only tests numbers for truthiness, compares them inside
  a \<open>Set\<close> and renders them, and all three are functions of that rendering. An object
  is the list of its own properties.
\<close>

datatype jsval =
    JUndefined
  | JNull
  | JBool bool
  | JNum string
  | JStr string
  | JArr "jsval list"
  | JObj "(string \<times> jsval) list"

text \<open>A thrown value: an error object with its \<open>name\<close> and \<open>message\<close>.\<close>

datatype js_error = JsError (err_name: string) (err_message: string)

text \<open>\<open>new Error(msg)\<close>.\<close>

definition new_Error :: "string \<Rightarrow> js_error" where
  "new_Error msg = JsError ''Error'' msg"

text \<open>
  \<open>String(err)\<close>, which a template literal applies to an error object
  (\<open>Error.prototype.toString\<close>).
\<close>

definition err_string :: "js_error \<Rightarrow> string" where
  "err_string e =
     (if err_name e = [] then err_message e
      else if err_message e = [] then err_name e
      else err_name e @ '': '' @ err_message e)"

text \<open>Truthiness, as \<open>!x\<close>, \<open>x && y\<close> and \<open>x || y\<close> test it.\<close>

fun truthy :: "jsval \<Rightarrow> bool" where
  "truthy JUndefined = False"
| "truthy JNull = False"
| "truthy (JBool b) = b"
| "truthy (JNum t) = (t \<noteq> ''0'' \<and> t \<noteq> ''NaN'')"
| "truthy (JStr s) = (s \<noteq> [])"
| "truthy (JArr xs) = True"
| "truthy (JObj kvs) = True"

text \<open>
  Property read \<open>v.k\<close> / \<open>v[k]\<close>. Reading a property of \<open>undefined\<close> or \<open>null\<close> throws a
  TypeError; a primitive or an array has none of the properties the code reads
  (\<open>@graph\<close>, \<open>photo\<close>, \<open>tag\<close>, \<open>path\<close>), so the read gives \<open>undefined\<close>; an object
  gives the property's value, or \<open>undefined\<close> when it has no such property.
\<close>

definition cannot_read :: "string \<Rightarrow> string \<Rightarrow> js_error" where
  "cannot_read base k =
     JsError ''TypeError''
       (''Cannot read properties of '' @ base @ '' (reading '' @ [CHR 0x27] @ k @ [CHR 0x27]
        @ '')'')"

fun get_prop :: "jsval \<Rightarrow> string \<Rightarrow> js_error + jsval" where
  "get_prop JUndefined k = Inl (cannot_read ''undefined'' k)"
| "get_prop JNull k = Inl (cannot_read ''null'' k)"
| "get_prop (JObj kvs) k = Inr (case map_of kvs k of Some v \<Rightarrow> v | None \<Rightarrow> JUndefined)"
| "get_prop v k = Inr JUndefined"

text \<open>
  \<open>String(v)\<close> and \<open>Array.prototype.join(',')\<close>: an array renders as its elements
  joined by commas, where \<open>undefined\<close> and \<open>null\<close> elements render as the empty
  string.
\<close>

fun js_string :: "jsval \<Rightarrow> string"
  and join_elem :: "jsval \<Rightarrow> string"
  and join :: "jsval list \<Rightarrow> string" where
  "js_string JUndefined = ''undefined''"
| "js_string JNull = ''null''"
| "js_string (JBool b) = (if b then ''true'' else ''false'')"
| "js_string (JNum t) = t"
| "js_string (JStr s) = s"
| "js_string (JArr xs) = join xs"
| "js_string (JObj kvs) = ''[object Object]''"
| "join_elem JUndefined = []"
| "join_elem JNull = []"
| "join_elem v = js_string v"
| "join [] = []"
| "join [x] = join_elem x"
| "join (x # y # ys) = join_elem x @ '','' @ join (y # ys)"

text \<open>Decimal rendering of a non-negative integer (a length, an HTTP status).\<close>

fun show_nat :: "nat \<Rightarrow> string" where
  "show_nat n =
     (if n < 10 then [''0123456789'' ! n]
      else show_nat (n div 10) @ [''0123456789'' ! (n mod 10)])"

declare show_nat.simps [simp del]

text \<open>
  The equality of \<open>Set\<close> (SameValueZero): primitives by value, objects and arrays by
  reference. The payload is a document, so two occurrences of an object or array in
  it are two references.
\<close>

fun is_primitive :: "jsval \<Rightarrow> bool" where
  "is_primitive (JArr xs) = False"
| "is_primitive (JObj kvs) = False"
| "is_primitive v = True"

definition same_value_zero :: "jsval \<Rightarrow> jsval \<Rightarrow> bool" where
  "same_value_zero v w = (is_primitive v \<and> v = w)"

text \<open>A \<open>Set\<close> as the list of its members in insertion order; \<open>Set.prototype.add\<close>.\<close>

fun set_has :: "jsval list \<Rightarrow> jsval \<Rightarrow> bool" where
  "set_has [] v = False"
| "set_has (x # xs) v = (same_value_zero x v \<or> set_has xs v)"

definition set_add :: "jsval list \<Rightarrow> jsval \<Rightarrow> jsval list" where
  "set_add s v = (if set_has s v then s else s @ [v])"

section \<open>The plugin and its surroundings\<close>

type_synonym obj = "(string \<times> jsval) list"

text \<open>
  Object spread \<open>{...a, ...b}\<close>: the properties of \<open>a\<close>, each overwritten by the
  property of \<open>b\<close> of the same name, then the other properties of \<open>b\<close>.
\<close>

definition spread :: "('k \<times> 'v) list \<Rightarrow> ('k \<times> 'v) list \<Rightarrow> ('k \<times> 'v) list" where
  "spread a b = AList.merge a b"

text \<open>\<open>TropyToTumblr.defaults\<close>.\<close>

definition defaults :: obj where
  "defaults =
     [(''blogName'', JStr ''YOUR_BLOG_NAME''),
      (''consumerKey'', JStr ''YOUR_DEFAULT_CONSUMER_KEY''),
      (''consumerSecret'', JStr ''YOUR_DEFAULT_CONSUMER_SECRET''),
      (''token'', JStr ''YOUR_DEFAULT_TOKEN''),
      (''tokenSecret'', JStr ''YOUR_DEFAULT_TOKEN_SECRET'')]"

text \<open>
  The configuration handed to \<open>OAuth(...)\<close>; its \<open>hash_function\<close> is the HMAC-SHA1 of
  Node's \<open>crypto\<close>, a parameter of the signing library below.
\<close>

record oauth_config =
  consumer_key :: jsval
  consumer_secret :: jsval
  signature_method :: string

record plugin =
  options :: obj
  blogName :: jsval
  consumerKey :: jsval
  consumerSecret :: jsval
  token :: jsval
  tokenSecret :: jsval
  oauth :: oauth_config

text \<open>A field of the merged options: \<open>this.options.k\<close>.\<close>

definition option_field :: "obj \<Rightarrow> string \<Rightarrow> jsval" where
  "option_field os k = (case map_of os k of Some v \<Rightarrow> v | None \<Rightarrow> JUndefined)"

text \<open>
  The constructor. The host's context only supplies the logger, whose calls are
  events of the trace below.
\<close>

definition constructor :: "obj \<Rightarrow> plugin" where
  "constructor opts =
     (let os = spread defaults opts;
          blogName = option_field os ''blogName'';
          consumerKey = option_field os ''consumerKey'';
          consumerSecret = option_field os ''consumerSecret'';
          token = option_field os ''token'';
          tokenSecret = option_field os ''tokenSecret''
      in \<lparr>options = os,
          blogName = blogName,
          consumerKey = consumerKey,
          consumerSecret = consumerSecret,
          token = token,
          tokenSecret = tokenSecret,
          oauth = \<lparr>consumer_key = consumerKey,
                    consumer_secret = consumerSecret,
                    signature_method = ''HMAC-SHA1''\<rparr>\<rparr>)"

subsection \<open>Requests and responses\<close>

text \<open>A part of the multipart form: a text field, or a file streamed from disk.\<close>

datatype part = TextField string string | FileStream string string

text \<open>The \<open>requestData\<close> and \<open>tokenObj\<close> handed to the signing library.\<close>

record request_data =
  rd_url :: string
  rd_method :: string
  rd_data :: obj

record token_obj =
  tok_key :: jsval
  tok_secret :: jsval

text \<open>The request handed to \<open>fetch\<close>.\<close>

record request =
  req_url :: string
  req_method :: string
  req_headers :: "(string \<times> string) list"
  req_body :: "part list"

text \<open>
  The platform's response: its HTTP status and what \<open>response.json()\<close> gives, the
  parsed body or the parse error it rejects with. \<open>response.ok\<close> is node-fetch's
  getter: the status is in the range 200 to 299.
\<close>

record response =
  status :: nat
  json :: "js_error + jsval"

definition ok :: "response \<Rightarrow> bool" where
  "ok r = (200 \<le> status r \<and> status r < 300)"

datatype fetch_result = Rejects js_error | Resolves response

text \<open>
  What the plugin's surroundings decide: the filesystem at the time of the call, the
  platform and the network, the engine's \<open>JSON.stringify\<close>, the signing library
  (\<open>authorize\<close> on the configuration, the request data, the token, and the nonce and
  timestamp it draws; \<open>toHeader\<close>), and the boundary the form library draws.
\<close>

record env =
  existsSync :: "string \<Rightarrow> bool"
  fetch :: "request \<Rightarrow> fetch_result"
  stringify :: "jsval \<Rightarrow> string"
  authorize ::
    "oauth_config \<Rightarrow> request_data \<Rightarrow> token_obj \<Rightarrow> string \<Rightarrow> nat \<Rightarrow> (string \<times> string) list"
  toHeader :: "(string \<times> string) list \<Rightarrow> (string \<times> string) list"
  nonce :: string
  timestamp :: nat
  boundary :: string

text \<open>
  \<open>fs.existsSync(v)\<close>: false for every value that is not a valid path, so for every
  value of the payload that is not a string.
\<close>

fun exists_sync :: "env \<Rightarrow> jsval \<Rightarrow> bool" where
  "exists_sync e (JStr s) = existsSync e s"
| "exists_sync e v = False"

text \<open>\<open>form.getHeaders()\<close> of the form library.\<close>

definition getHeaders :: "env \<Rightarrow> (string \<times> string) list" where
  "getHeaders e = [(''content-type'', ''multipart/form-data; boundary='' @ boundary e)]"

subsection \<open>What a call does: the trace\<close>

text \<open>
  The value a logger call receives after its message: a value, or a caught error.
\<close>

datatype log_arg = AVal jsval | AErr js_error

text \<open>
  The observable steps of a call, in order: the logger's \<open>info\<close> and \<open>error\<close>, the
  entry into \<open>postPhotosToTumblr\<close> with its arguments, and the request given to
  \<open>fetch\<close>.
\<close>

datatype event =
    LogInfo string "log_arg list"
  | LogError string "log_arg list"
  | Invoke "string list" string "jsval list"
  | Fetch request

section \<open>The uploader\<close>

text \<open>The endpoint, templated from the configured blog name.\<close>

definition post_url :: "plugin \<Rightarrow> string" where
  "post_url pl =
     ''https://api.tumblr.com/v2/blog/'' @ js_string (blogName pl) @ ''.tumblr.com/post''"

text \<open>
  The multipart form, built by the \<open>form.append\<close> calls in their order.
  \<open>fs.createReadStream\<close> opens lazily: the part holds the path it will read.
\<close>

definition build_form :: "string list \<Rightarrow> string \<Rightarrow> jsval list \<Rightarrow> part list" where
  "build_form photoPaths caption tags =
     [TextField ''type'' ''photo'', TextField ''caption'' caption]
     @ (if length tags > 0 then [TextField ''tags'' (join tags)] else [])
     @ map (FileStream ''data[]'') photoPaths"

text \<open>The OAuth request data, token and headers.\<close>

definition requestData :: "plugin \<Rightarrow> request_data" where
  "requestData pl = \<lparr>rd_url = post_url pl, rd_method = ''POST'', rd_data = []\<rparr>"

definition tokenObj :: "plugin \<Rightarrow> token_obj" where
  "tokenObj pl = \<lparr>tok_key = token pl, tok_secret = tokenSecret pl\<rparr>"

definition signed_params :: "plugin \<Rightarrow> env \<Rightarrow> (string \<times> string) list" where
  "signed_params pl e =
     authorize e (oauth pl) (requestData pl) (tokenObj pl) (nonce e) (timestamp e)"

definition oauthHeaders :: "plugin \<Rightarrow> env \<Rightarrow> (string \<times> string) list" where
  "oauthHeaders pl e = toHeader e (signed_params pl e)"

definition build_request ::
  "plugin \<Rightarrow> env \<Rightarrow> string list \<Rightarrow> string \<Rightarrow> jsval list \<Rightarrow> request" where
  "build_request pl e photoPaths caption tags =
     \<lparr>req_url = post_url pl,
      req_method = ''POST'',
      req_headers = spread (oauthHeaders pl e) (getHeaders e),
      req_body = build_form photoPaths caption tags\<rparr>"

text \<open>
  What the uploader does with the response: the parse of the body first, the status
  after it.
\<close>

definition handle_response :: "env \<Rightarrow> response \<Rightarrow> js_error + jsval" where
  "handle_response e r =
     (case json r of
        Inl parseErr \<Rightarrow>
          Inl (new_Error (''Tumblr response is not valid JSON: '' @ err_string parseErr))
      | Inr j \<Rightarrow>
          if \<not> ok r then
            Inl (new_Error (''Tumblr API error (status='' @ show_nat (status r) @ ''): ''
                            @ stringify e j))
          else Inr j)"

text \<open>
  \<open>postPhotosToTumblr\<close>: the events of the call, and the value it returns or the
  error it throws. A rejection of \<open>fetch\<close> propagates as it is.
\<close>

definition postPhotosToTumblr ::
  "plugin \<Rightarrow> env \<Rightarrow> string list \<Rightarrow> string \<Rightarrow> jsval list \<Rightarrow> event list \<times> (js_error + jsval)" where
  "postPhotosToTumblr pl e photoPaths caption tags =
     (let req = build_request pl e photoPaths caption tags;
          evs = [Invoke photoPaths caption tags, Fetch req]
      in case fetch e req of
           Rejects err \<Rightarrow> (evs, Inl err)
         | Resolves r \<Rightarrow> (evs, handle_response e r))"

section \<open>The export hook\<close>

text \<open>
  The inner loop over \<open>node.photo\<close>. Only a string passes \<open>fs.existsSync\<close>, so the
  value pushed is one.
\<close>

fun path_string :: "jsval \<Rightarrow> string" where
  "path_string (JStr s) = s"
| "path_string v = []"

fun photo_loop :: "env \<Rightarrow> jsval list \<Rightarrow> string list \<Rightarrow> js_error + string list" where
  "photo_loop e [] photoPaths = Inr photoPaths"
| "photo_loop e (p # ps) photoPaths =
     (case get_prop p ''path'' of
        Inl err \<Rightarrow> Inl err
      | Inr path \<Rightarrow>
          if truthy path \<and> exists_sync e path
          then photo_loop e ps (photoPaths @ [path_string path])
          else photo_loop e ps photoPaths)"

text \<open>\<open>node.tag.forEach(tag => allTags.add(tag))\<close>.\<close>

definition add_tags :: "jsval list \<Rightarrow> jsval list \<Rightarrow> jsval list" where
  "add_tags allTags tags = foldl set_add allTags tags"

text \<open>The loop over the nodes of the graph, with both accumulators.\<close>

fun graph_loop ::
  "env \<Rightarrow> jsval list \<Rightarrow> string list \<Rightarrow> jsval list \<Rightarrow> js_error + (string list \<times> jsval list)" where
  "graph_loop e [] photoPaths allTags = Inr (photoPaths, allTags)"
| "graph_loop e (node # nodes) photoPaths allTags =
     (case get_prop node ''photo'' of
        Inl err \<Rightarrow> Inl err
      | Inr photo \<Rightarrow>
          (case (case photo of JArr ps \<Rightarrow> photo_loop e ps photoPaths | _ \<Rightarrow> Inr photoPaths) of
             Inl err \<Rightarrow> Inl err
           | Inr photoPaths' \<Rightarrow>
               (case get_prop node ''tag'' of
                  Inl err \<Rightarrow> Inl err
                | Inr tag \<Rightarrow>
                    graph_loop e nodes photoPaths'
                      (case tag of JArr ts \<Rightarrow> add_tags allTags ts | _ \<Rightarrow> allTags))))"

text \<open>
  The outcome of a call of the hook: its events, and whether the promise it returns
  resolves (\<open>Inr ()\<close>) or rejects with an error the host sees.
\<close>

record outcome =
  trace :: "event list"
  result :: "js_error + unit"

definition received :: "jsval \<Rightarrow> event" where
  "received d = LogInfo ''TropyToTumblr.export() received data:'' [AVal d]"

definition no_items :: "jsval \<Rightarrow> outcome" where
  "no_items d =
     \<lparr>trace = [received d, LogInfo ''No items found in the Tropy export data.'' []],
      result = Inr ()\<rparr>"

definition no_photos :: "jsval \<Rightarrow> outcome" where
  "no_photos d =
     \<lparr>trace = [received d, LogInfo ''No local photos found among the selected items.'' []],
      result = Inr ()\<rparr>"

definition posting :: "plugin \<Rightarrow> string list \<Rightarrow> jsval list \<Rightarrow> event" where
  "posting pl photoPaths tagArray =
     LogInfo (''Posting '' @ show_nat (length photoPaths) @ '' photo(s) to Tumblr blog ''
              @ [CHR 0x22] @ js_string (blogName pl) @ [CHR 0x22] @ '' with tags:'')
       [AVal (JArr tagArray)]"

text \<open>The part of the hook after the extraction, with its \<open>try\<close> and \<open>catch\<close>.\<close>

definition post_and_log ::
  "plugin \<Rightarrow> env \<Rightarrow> jsval \<Rightarrow> string list \<Rightarrow> jsval list \<Rightarrow> outcome" where
  "post_and_log pl e d photoPaths allTags =
     (if length photoPaths = 0 then no_photos d
      else
        let tagArray = allTags
        in case postPhotosToTumblr pl e photoPaths [] tagArray of
             (evs, Inr res) \<Rightarrow>
               \<lparr>trace = [received d, posting pl photoPaths tagArray] @ evs
                          @ [LogInfo ''Posted to Tumblr successfully:'' [AVal res]],
                result = Inr ()\<rparr>
           | (evs, Inl err) \<Rightarrow>
               \<lparr>trace = [received d, posting pl photoPaths tagArray] @ evs
                          @ [LogError ''Failed to post photos to Tumblr:''
                               [if err_message err \<noteq> [] then AVal (JStr (err_message err))
                                else AErr err]],
                result = Inr ()\<rparr>)"

text \<open>
  \<open>export\<close>. The guard reads \<open>data['@graph']\<close> only when \<open>data\<close> is truthy. An error
  thrown by the extraction is outside the \<open>try\<close>: the call rejects with it.
\<close>

definition export :: "plugin \<Rightarrow> env \<Rightarrow> jsval \<Rightarrow> outcome" where
  "export pl e d =
     (if \<not> truthy d then no_items d
      else case get_prop d ''@graph'' of
             Inl err \<Rightarrow> \<lparr>trace = [received d], result = Inl err\<rparr>
           | Inr (JArr nodes) \<Rightarrow>
               if length nodes = 0 then no_items d
               else (case graph_loop e nodes [] [] of
                       Inl err \<Rightarrow> \<lparr>trace = [received d], result = Inl err\<rparr>
                     | Inr (photoPaths, allTags) \<Rightarrow> post_and_log pl e d photoPaths allTags)
           | Inr g \<Rightarrow> no_items d)"

section \<open>The payload as the specification describes it\<close>

text \<open>
  The item graph of a payload, when the payload is there and has one; the photo
  entries and the tags of an item; the path string of a photo entry.
\<close>

definition item_graph :: "jsval \<Rightarrow> jsval option" where
  "item_graph d = (case d of JObj kvs \<Rightarrow> map_of kvs ''@graph'' | _ \<Rightarrow> None)"

definition nothing_to_export :: "jsval \<Rightarrow> bool" where
  "nothing_to_export d = (case item_graph d of Some (JArr nodes) \<Rightarrow> nodes = [] | _ \<Rightarrow> True)"

definition photo_entries :: "jsval \<Rightarrow> jsval list" where
  "photo_entries node =
     (case node of
        JObj kvs \<Rightarrow> (case map_of kvs ''photo'' of Some (JArr ps) \<Rightarrow> ps | _ \<Rightarrow> [])
      | _ \<Rightarrow> [])"

definition node_tags :: "jsval \<Rightarrow> jsval list" where
  "node_tags node =
     (case node of
        JObj kvs \<Rightarrow> (case map_of kvs ''tag'' of Some (JArr ts) \<Rightarrow> ts | _ \<Rightarrow> [])
      | _ \<Rightarrow> [])"

definition all_tags :: "jsval list \<Rightarrow> jsval list" where
  "all_tags nodes = concat (map node_tags nodes)"

definition entry_path :: "jsval \<Rightarrow> string list" where
  "entry_path p =
     (case p of
        JObj kvs \<Rightarrow> (case map_of kvs ''path'' of Some (JStr s) \<Rightarrow> [s] | _ \<Rightarrow> [])
      | _ \<Rightarrow> [])"

text \<open>
  The paths of all photo entries of all items, in order, that are non-empty and
  exist on disk.
\<close>

definition existing_paths :: "env \<Rightarrow> jsval list \<Rightarrow> string list" where
  "existing_paths e nodes =
     [s. node \<leftarrow> nodes, p \<leftarrow> photo_entries node, s \<leftarrow> entry_path p, s \<noteq> [] \<and> existsSync e s]"

text \<open>\<open>undefined\<close> and \<open>null\<close>, the values a property cannot be read from.\<close>

fun nullish :: "jsval \<Rightarrow> bool" where
  "nullish JUndefined = True"
| "nullish JNull = True"
| "nullish v = False"

text \<open>The binary parts of a form.\<close>

fun is_file :: "part \<Rightarrow> bool" where
  "is_file (FileStream name path) = True"
| "is_file (TextField name v) = False"

text \<open>
  An item the extraction cannot read: it is \<open>undefined\<close> or \<open>null\<close>, or one of its
  photo entries is.
\<close>

definition unreadable :: "jsval \<Rightarrow> bool" where
  "unreadable node = (nullish node \<or> list_ex nullish (photo_entries node))"

section \<open>Sample inputs\<close>

text \<open>
  A payload of items; an item with photo entries at the given paths and with the
  given tags; a plugin configured with a blog name only.
\<close>

definition payload :: "jsval list \<Rightarrow> jsval" where
  "payload nodes = JObj [(''@graph'', JArr nodes)]"

definition item :: "string list \<Rightarrow> string list \<Rightarrow> jsval" where
  "item paths tags =
     JObj [(''photo'', JArr (map (\<lambda>s. JObj [(''path'', JStr s)]) paths)),
           (''tag'', JArr (map JStr tags))]"

definition sample_plugin :: plugin where
  "sample_plugin = constructor [(''blogName'', JStr ''myblog'')]"

text \<open>
  Surroundings in which the only file is \<open>/photos/a.jpg\<close> and the platform gives the
  one answer to every request.
\<close>

definition sample_env :: "fetch_result \<Rightarrow> string \<Rightarrow> env" where
  "sample_env answer bnd =
     \<lparr>existsSync = (\<lambda>s. s = ''/photos/a.jpg''),
      fetch = (\<lambda>req. answer),
      stringify = (\<lambda>v. ''{}''),
      authorize = (\<lambda>cfg rd tok n t. [(''oauth_nonce'', n), (''oauth_timestamp'', show_nat t)]),
      toHeader = (\<lambda>ps. [(''Authorization'', ''OAuth '' @ concat (map snd ps))]),
      nonce = ''n0'',
      timestamp = 1700000000,
      boundary = bnd\<rparr>"

definition unauthorized :: fetch_result where
  "unauthorized = Resolves \<lparr>status = 401, json = Inr (JObj [(''errors'', JStr ''Unauthorized'')])\<rparr>"

definition created :: fetch_result where
  "created = Resolves \<lparr>status = 200, json = Inr (JObj [(''id'', JNum ''42'')])\<rparr>"

definition garbled :: fetch_result where
  "garbled =
     Resolves \<lparr>status = 200, json = Inl (JsError ''FetchError'' ''invalid json response body'')\<rparr>"

definition offline :: fetch_result where
  "offline = Rejects (JsError ''FetchError'' ''request failed'')"

section \<open>Property reads and the loop over the photo entries\<close>

lemma get_prop_Inl_iff: "(\<exists>err. get_prop v k = Inl err) \<longleftrightarrow> nullish v"
  by (cases v) auto

lemma get_prop_TypeError: "get_prop v k = Inl err \<Longrightarrow> err_name err = ''TypeError''"
  by (cases v) (auto simp: cannot_read_def)

lemma get_prop_photo: "get_prop node ''photo'' = Inr ph \<Longrightarrow>
   photo_entries node = (case ph of JArr ps \<Rightarrow> ps | _ \<Rightarrow> [])"
  by (cases node) (auto simp: photo_entries_def split: option.splits jsval.splits)

lemma get_prop_tag: "get_prop node ''tag'' = Inr tg \<Longrightarrow>
   node_tags node = (case tg of JArr ts \<Rightarrow> ts | _ \<Rightarrow> [])"
  by (cases node) (auto simp: node_tags_def split: option.splits jsval.splits)

lemma entry_step:
  "get_prop p ''path'' = Inr path \<Longrightarrow>
   [s. s \<leftarrow> entry_path p, s \<noteq> [] \<and> existsSync e s]
     = (if truthy path \<and> exists_sync e path then [path_string path] else [])"
  by (cases p; cases path) (auto simp: entry_path_def split: option.splits)

lemma photo_loop_paths:
  "photo_loop e ps acc = Inr r \<Longrightarrow>
   r = acc @ [s. p \<leftarrow> ps, s \<leftarrow> entry_path p, s \<noteq> [] \<and> existsSync e s]"
proof (induction ps arbitrary: acc)
  case Nil
  then show ?case by simp
next
  case (Cons p ps)
  from Cons.prems obtain path where path: "get_prop p ''path'' = Inr path"
    by (auto split: sum.splits)
  have step: "[s. s \<leftarrow> entry_path p, s \<noteq> [] \<and> existsSync e s]
     = (if truthy path \<and> exists_sync e path then [path_string path] else [])"
    by (rule entry_step [OF path])
  show ?case
  proof (cases "truthy path \<and> exists_sync e path")
    case True
    with Cons.prems path have "photo_loop e ps (acc @ [path_string path]) = Inr r" by simp
    from Cons.IH [OF this] step True show ?thesis by simp
  next
    case False
    with Cons.prems path have "photo_loop e ps acc = Inr r" by auto
    from Cons.IH [OF this] step False show ?thesis by auto
  qed
qed

lemma photo_loop_throws:
  "(\<exists>err. photo_loop e ps acc = Inl err) \<longleftrightarrow> (\<exists>p\<in>set ps. nullish p)"
proof (induction ps arbitrary: acc)
  case Nil
  show ?case by simp
next
  case (Cons p ps)
  show ?case
  proof (cases "nullish p")
    case True
    then obtain err where "get_prop p ''path'' = Inl err"
      using get_prop_Inl_iff by blast
    with True show ?thesis by simp
  next
    case False
    then obtain path where "get_prop p ''path'' = Inr path"
      using get_prop_Inl_iff by (metis sum.exhaust_sel sum.collapse(1))
    with False Cons.IH show ?thesis by simp
  qed
qed

lemma photo_loop_TypeError:
  "photo_loop e ps acc = Inl err \<Longrightarrow> err_name err = ''TypeError''"
  by (induction ps arbitrary: acc)
     (auto split: sum.splits if_splits dest: get_prop_TypeError)

section \<open>The loop over the graph and the set of tags\<close>

lemma get_prop_total: "\<not> nullish v \<Longrightarrow> \<exists>x. get_prop v k = Inr x"
  by (cases v) auto

lemma nullish_get_prop: "nullish v \<Longrightarrow> \<exists>err. get_prop v k = Inl err"
  by (cases v) auto

lemma graph_loop_throws:
  "(\<exists>err. graph_loop e nodes ps ts = Inl err) \<longleftrightarrow> list_ex unreadable nodes"
proof (induction nodes arbitrary: ps ts)
  case Nil
  show ?case by simp
next
  case (Cons node nodes)
  show ?case
  proof (cases "nullish node")
    case True
    then obtain err where "get_prop node ''photo'' = Inl err"
      using nullish_get_prop by blast
    with True show ?thesis by (simp add: unreadable_def)
  next
    case False
    obtain ph where ph: "get_prop node ''photo'' = Inr ph"
      using get_prop_total [OF False] by blast
    obtain tg where tg: "get_prop node ''tag'' = Inr tg"
      using get_prop_total [OF False] by blast
    note entries = get_prop_photo [OF ph]
    show ?thesis
    proof (cases "list_ex nullish (photo_entries node)")
      case True
      with entries obtain xs where xs: "ph = JArr xs" "list_ex nullish xs"
        by (cases ph) auto
      then obtain err where "photo_loop e xs ps = Inl err"
        using photo_loop_throws [of e xs ps] by (auto simp: list_ex_iff)
      with ph xs True show ?thesis by (simp add: unreadable_def)
    next
      case noex: False
      have "\<exists>ps'. (case ph of JArr xs \<Rightarrow> photo_loop e xs ps | _ \<Rightarrow> Inr ps) = Inr ps'"
      proof (cases ph)
        case (JArr xs)
        with noex entries have "\<not> (\<exists>err. photo_loop e xs ps = Inl err)"
          using photo_loop_throws [of e xs ps] by (auto simp: list_ex_iff)
        then show ?thesis using JArr by (cases "photo_loop e xs ps") auto
      qed auto
      then obtain ps' where
        "(case ph of JArr xs \<Rightarrow> photo_loop e xs ps | _ \<Rightarrow> Inr ps) = Inr ps'" by blast
      with ph tg False noex Cons.IH show ?thesis by (simp add: unreadable_def)
    qed
  qed
qed

lemma graph_loop_TypeError:
  "graph_loop e nodes ps ts = Inl err \<Longrightarrow> err_name err = ''TypeError''"
proof (induction nodes arbitrary: ps ts)
  case Nil
  then show ?case by simp
next
  case (Cons node nodes)
  then show ?case
    by (auto split: sum.splits jsval.splits dest: get_prop_TypeError photo_loop_TypeError)
qed

lemma existing_paths_Cons:
  "existing_paths e (node # nodes) =
     [s. p \<leftarrow> photo_entries node, s \<leftarrow> entry_path p, s \<noteq> [] \<and> existsSync e s]
     @ existing_paths e nodes"
  by (simp add: existing_paths_def)

lemma graph_loop_result:
  "graph_loop e nodes ps ts = Inr (ps', ts') \<Longrightarrow>
   ps' = ps @ existing_paths e nodes \<and> ts' = add_tags ts (all_tags nodes)"
proof (induction nodes arbitrary: ps ts)
  case Nil
  then show ?case by (simp add: existing_paths_def all_tags_def add_tags_def)
next
  case (Cons node nodes)
  from Cons.prems obtain ph where ph: "get_prop node ''photo'' = Inr ph"
    by (auto split: sum.splits)
  from Cons.prems ph obtain mid where
    mid: "(case ph of JArr xs \<Rightarrow> photo_loop e xs ps | _ \<Rightarrow> Inr ps) = Inr mid"
    by (auto split: sum.splits)
  from Cons.prems ph mid obtain tg where tg: "get_prop node ''tag'' = Inr tg"
    by (auto split: sum.splits)
  let ?ts1 = "case tg of JArr xs \<Rightarrow> add_tags ts xs | _ \<Rightarrow> ts"
  from Cons.prems ph mid tg have rest: "graph_loop e nodes mid ?ts1 = Inr (ps', ts')"
    by simp
  have mid_eq: "mid = ps @ [s. p \<leftarrow> photo_entries node, s \<leftarrow> entry_path p, s \<noteq> [] \<and> existsSync e s]"
  proof (cases ph)
    case (JArr xs)
    with mid have "photo_loop e xs ps = Inr mid" by simp
    from photo_loop_paths [OF this] get_prop_photo [OF ph] JArr show ?thesis by simp
  qed (use mid get_prop_photo [OF ph] in auto)
  have ts1_eq: "?ts1 = add_tags ts (node_tags node)"
    using get_prop_tag [OF tg] by (cases tg) (auto simp: add_tags_def)
  from Cons.IH [OF rest] mid_eq ts1_eq show ?case
    by (simp add: existing_paths_Cons all_tags_def add_tags_def)
qed

lemma set_has_iff: "set_has s v \<longleftrightarrow> is_primitive v \<and> v \<in> set s"
  by (induction s) (auto simp: same_value_zero_def)

lemma set_set_add: "set (set_add s v) = insert v (set s)"
  by (auto simp: set_add_def set_has_iff)

lemma set_add_tags: "set (add_tags s xs) = set s \<union> set xs"
  unfolding add_tags_def by (induction xs arbitrary: s) (auto simp: set_set_add)

lemma filter_set_add:
  "distinct (filter is_primitive s) \<Longrightarrow> distinct (filter is_primitive (set_add s v))"
  by (auto simp: set_add_def set_has_iff)

lemma distinct_add_tags:
  "distinct (filter is_primitive s) \<Longrightarrow> distinct (filter is_primitive (add_tags s xs))"
  unfolding add_tags_def by (induction xs arbitrary: s) (auto simp: filter_set_add)

section \<open>The shape of an export\<close>

lemma export_nothing: "nothing_to_export d \<Longrightarrow> export pl e d = no_items d"
  by (cases d)
     (auto simp: nothing_to_export_def item_graph_def export_def
           split: option.splits jsval.splits)

lemma export_graph:
  "item_graph d = Some (JArr nodes) \<Longrightarrow> nodes \<noteq> [] \<Longrightarrow>
   export pl e d =
     (case graph_loop e nodes [] [] of
        Inl err \<Rightarrow> \<lparr>trace = [received d], result = Inl err\<rparr>
      | Inr (ps, ts) \<Rightarrow> post_and_log pl e d ps ts)"
  by (cases d) (auto simp: item_graph_def export_def split: option.splits)

lemma something_to_export:
  "\<not> nothing_to_export d \<Longrightarrow> \<exists>nodes. item_graph d = Some (JArr nodes) \<and> nodes \<noteq> []"
  by (auto simp: nothing_to_export_def split: option.splits jsval.splits)

lemma post_and_log_result: "result (post_and_log pl e d ps ts) = Inr ()"
  by (auto simp: post_and_log_def no_photos_def split: prod.splits sum.splits)

lemma post_and_log_empty: "post_and_log pl e d [] ts = no_photos d"
  by (simp add: post_and_log_def)

lemma fst_post: "fst (postPhotosToTumblr pl e ps c ts) =
   [Invoke ps c ts, Fetch (build_request pl e ps c ts)]"
  by (simp add: postPhotosToTumblr_def Let_def split: fetch_result.splits)

lemma snd_post: "snd (postPhotosToTumblr pl e ps c ts) =
   (case fetch e (build_request pl e ps c ts) of
      Rejects err \<Rightarrow> Inl err | Resolves r \<Rightarrow> handle_response e r)"
  by (simp add: postPhotosToTumblr_def Let_def split: fetch_result.splits)

lemma post_and_log_trace:
  "ps \<noteq> [] \<Longrightarrow>
   trace (post_and_log pl e d ps ts) =
     [received d, posting pl ps ts, Invoke ps [] ts, Fetch (build_request pl e ps [] ts),
      (case snd (postPhotosToTumblr pl e ps [] ts) of
         Inr res \<Rightarrow> LogInfo ''Posted to Tumblr successfully:'' [AVal res]
       | Inl err \<Rightarrow> LogError ''Failed to post photos to Tumblr:''
                     [if err_message err \<noteq> [] then AVal (JStr (err_message err))
                      else AErr err])]"
  using fst_post [of pl e ps "[]" ts]
  by (cases "postPhotosToTumblr pl e ps [] ts")
     (auto simp: post_and_log_def split: sum.splits)

lemma invoke_in_export:
  assumes "Invoke ps c ts \<in> set (trace (export pl e d))"
  shows "\<exists>nodes. item_graph d = Some (JArr nodes) \<and> nodes \<noteq> []
           \<and> graph_loop e nodes [] [] = Inr (ps, ts) \<and> ps \<noteq> [] \<and> c = []
           \<and> export pl e d = post_and_log pl e d ps ts"
proof (cases "nothing_to_export d")
  case True
  with assms show ?thesis
    by (simp add: export_nothing no_items_def received_def)
next
  case False
  then obtain nodes where g: "item_graph d = Some (JArr nodes)" "nodes \<noteq> []"
    using something_to_export by blast
  note ex = export_graph [OF g, of pl e]
  show ?thesis
  proof (cases "graph_loop e nodes [] []")
    case (Inl err)
    with assms ex show ?thesis by (simp add: received_def)
  next
    case (Inr r)
    obtain ps' ts' where r: "r = (ps', ts')" by (cases r)
    with Inr ex have ex': "export pl e d = post_and_log pl e d ps' ts'" by simp
    show ?thesis
    proof (cases "ps' = []")
      case True
      with assms ex' show ?thesis
        by (simp add: post_and_log_empty no_photos_def received_def)
    next
      case False
      with assms ex' have "ps = ps' \<and> c = [] \<and> ts = ts'"
        by (auto simp: post_and_log_trace received_def posting_def split: sum.splits)
      with g Inr r False ex' show ?thesis by auto
    qed
  qed
qed

lemma join_strings: "join (map JStr (s # ss)) = s @ concat (map ((@) '','') ss)"
  by (induction ss arbitrary: s) auto

lemma existing_paths_nonempty:
  "existing_paths e nodes \<noteq> [] \<Longrightarrow>
   \<exists>node\<in>set nodes. \<exists>p\<in>set (photo_entries node). \<exists>s\<in>set (entry_path p).
     s \<noteq> [] \<and> existsSync e s"
  by (auto simp: existing_paths_def split: if_splits)

lemma item_graph_payload: "item_graph (payload nodes) = Some (JArr nodes)"
  by (simp add: item_graph_def payload_def)


lemmas sample_defs = payload_def item_def sample_plugin_def sample_env_def constructor_def
  spread_def defaults_def option_field_def Let_def

lemmas export_defs = export_def post_and_log_def postPhotosToTumblr_def build_request_def
  build_form_def handle_response_def no_items_def no_photos_def received_def posting_def
  oauthHeaders_def signed_params_def requestData_def tokenObj_def getHeaders_def post_url_def
  add_tags_def set_add_def same_value_zero_def new_Error_def ok_def err_string_def

section \<open>Further facts about the parts\<close>

lemma distinct_all_primitive: "list_all is_primitive xs \<Longrightarrow> filter is_primitive xs = xs"
  by (induction xs) auto

lemma filter_is_file_form:
  "filter is_file (build_form ps c ts) = map (FileStream ''data[]'') ps"
  by (induction ps) (auto simp: build_form_def)

lemma tags_field_form:
  "(\<exists>v. TextField ''tags'' v \<in> set (build_form ps c ts)) \<longleftrightarrow> ts \<noteq> []"
  by (auto simp: build_form_def)

lemma option_field_spread:
  "option_field (spread a b) k =
     (case map_of b k of Some v \<Rightarrow> v | None \<Rightarrow> option_field a k)"
  by (simp add: option_field_def spread_def merge_conv' map_add_def split: option.splits)

lemma unreadable_iff:
  "list_ex unreadable nodes \<longleftrightarrow>
   (\<exists>node\<in>set nodes. nullish node \<or> (\<exists>p\<in>set (photo_entries node). nullish p))"
  by (simp add: list_ex_iff unreadable_def)

lemma map_of_spread:
  "map_of (spread a b) k = (case map_of b k of Some v \<Rightarrow> Some v | None \<Rightarrow> map_of a k)"
  by (simp add: spread_def merge_conv' map_add_def)

lemma headers_outside_content_type:
  "k \<noteq> ''content-type'' \<Longrightarrow>
   map_of (req_headers (build_request pl e ps c ts)) k = map_of (oauthHeaders pl e) k"
  by (simp add: build_request_def map_of_spread getHeaders_def)

section \<open>The extraction decides whether anything is uploaded\<close>

text \<open>
  Claim C1. The path list the extraction collects is exactly the list of the paths
  of the photo entries that are non-empty strings and exist on disk at that time.
  The uploader is called only with that list, only when it is not empty, so only
  when some photo entry has such a path. When the hook returns normally and no
  photo entry has such a path, all it does is log the payload and the message that
  no local photos were found: no call of the uploader, no request.
\<close>

theorem upload_only_for_existing_photos:
  "(\<forall>nodes ps ts. graph_loop e nodes [] [] = Inr (ps, ts) \<longrightarrow> ps = existing_paths e nodes)
   \<and> (\<forall>nodes ps c ts.
         item_graph d = Some (JArr nodes) \<and> Invoke ps c ts \<in> set (trace (export pl e d)) \<longrightarrow>
         ps = existing_paths e nodes \<and> ps \<noteq> []
         \<and> (\<exists>node\<in>set nodes. \<exists>p\<in>set (photo_entries node). \<exists>s\<in>set (entry_path p).
               s \<noteq> [] \<and> existsSync e s))
   \<and> (\<forall>nodes.
         item_graph d = Some (JArr nodes) \<and> nodes \<noteq> [] \<and> result (export pl e d) = Inr ()
         \<and> existing_paths e nodes = [] \<longrightarrow>
         export pl e d =
           \<lparr>trace = [LogInfo ''TropyToTumblr.export() received data:'' [AVal d],
                     LogInfo ''No local photos found among the selected items.'' []],
            result = Inr ()\<rparr>)"
proof (intro conjI allI impI)
  fix nodes ps ts
  assume "graph_loop e nodes [] [] = Inr (ps, ts)"
  from graph_loop_result [OF this] show "ps = existing_paths e nodes" by simp
next
  fix nodes ps c ts
  assume a: "item_graph d = Some (JArr nodes) \<and> Invoke ps c ts \<in> set (trace (export pl e d))"
  with invoke_in_export [of ps c ts pl e d]
  have loop: "graph_loop e nodes [] [] = Inr (ps, ts)" and ne: "ps \<noteq> []" by auto
  from graph_loop_result [OF loop] have eq: "ps = existing_paths e nodes" by simp
  from eq show "ps = existing_paths e nodes" .
  from ne show "ps \<noteq> []" .
  from ne eq existing_paths_nonempty [of e nodes]
  show "\<exists>node\<in>set nodes. \<exists>p\<in>set (photo_entries node). \<exists>s\<in>set (entry_path p).
          s \<noteq> [] \<and> existsSync e s" by simp
next
  fix nodes
  assume a: "item_graph d = Some (JArr nodes) \<and> nodes \<noteq> [] \<and> result (export pl e d) = Inr ()
    \<and> existing_paths e nodes = []"
  then have g: "item_graph d = Some (JArr nodes)" "nodes \<noteq> []" by simp_all
  note ex = export_graph [OF g, of pl e]
  show "export pl e d =
           \<lparr>trace = [LogInfo ''TropyToTumblr.export() received data:'' [AVal d],
                     LogInfo ''No local photos found among the selected items.'' []],
            result = Inr ()\<rparr>"
  proof (cases "graph_loop e nodes [] []")
    case (Inl err)
    with ex a show ?thesis by simp
  next
    case (Inr r)
    obtain ps ts where r: "r = (ps, ts)" by (cases r)
    from graph_loop_result [OF Inr [unfolded r]] a have "ps = []" by simp
    with ex Inr r show ?thesis
      by (simp add: post_and_log_empty no_photos_def received_def)
  qed
qed

theorem upload_only_for_existing_photos_witness:
  "Invoke [''/photos/a.jpg''] [] []
     \<in> set (trace (export sample_plugin (sample_env created ''b'')
                     (payload [item [''/photos/a.jpg'', ''/photos/gone.jpg'', ''''] []])))
   \<and> existing_paths (sample_env created ''b'')
        [item [''/photos/a.jpg'', ''/photos/gone.jpg'', ''''] []] = [''/photos/a.jpg'']
   \<and> existing_paths (sample_env created ''b'') [item [''/photos/gone.jpg''] []] = []
   \<and> result (export sample_plugin (sample_env created ''b'')
                (payload [item [''/photos/gone.jpg''] []])) = Inr ()
   \<and> trace (export sample_plugin (sample_env created ''b'')
               (payload [item [''/photos/gone.jpg''] []]))
       = [LogInfo ''TropyToTumblr.export() received data:''
            [AVal (payload [item [''/photos/gone.jpg''] []])],
          LogInfo ''No local photos found among the selected items.'' []]"
proof -
  let ?e = "sample_env created ''b''"
  let ?d = "payload [item [''/photos/a.jpg'', ''/photos/gone.jpg'', ''''] []]"
  let ?gone = "payload [item [''/photos/gone.jpg''] []]"
  have inv: "Invoke [''/photos/a.jpg''] [] [] \<in> set (trace (export sample_plugin ?e ?d))"
    by (simp add: sample_defs export_defs created_def)
  have none: "existing_paths ?e [item [''/photos/gone.jpg''] []] = []"
    by (simp add: existing_paths_def item_def photo_entries_def entry_path_def sample_env_def)
  have res: "result (export sample_plugin ?e ?gone) = Inr ()"
    by (simp add: sample_defs export_defs created_def)
  from upload_only_for_existing_photos [of ?e ?d sample_plugin] inv item_graph_payload
  have one: "[''/photos/a.jpg''] = existing_paths ?e
      [item [''/photos/a.jpg'', ''/photos/gone.jpg'', ''''] []]"
    by blast
  from upload_only_for_existing_photos [of ?e ?gone sample_plugin] none res item_graph_payload
  have "export sample_plugin ?e ?gone =
           \<lparr>trace = [LogInfo ''TropyToTumblr.export() received data:'' [AVal ?gone],
                     LogInfo ''No local photos found among the selected items.'' []],
            result = Inr ()\<rparr>"
    by blast
  then have tr: "trace (export sample_plugin ?e ?gone) =
     [LogInfo ''TropyToTumblr.export() received data:'' [AVal ?gone],
      LogInfo ''No local photos found among the selected items.'' []]" by simp
  from inv one none res tr show ?thesis by simp
qed

section \<open>The hook does nothing without items\<close>

text \<open>
  Claim C2. When the payload is missing (\<open>undefined\<close> or \<open>null\<close>), or has no
  \<open>@graph\<close>, or its \<open>@graph\<close> is not an array, or is the empty array, the hook logs the
  payload and the message that there are no items, both through \<open>info\<close>, and returns
  without an error. These two log calls are all it does: no path is collected, the
  uploader is not called and no request is made.
\<close>

theorem no_graph_no_export:
  "nothing_to_export d \<Longrightarrow>
   export pl e d =
     \<lparr>trace = [LogInfo ''TropyToTumblr.export() received data:'' [AVal d],
               LogInfo ''No items found in the Tropy export data.'' []],
      result = Inr ()\<rparr>"
  by (simp add: export_nothing no_items_def received_def)

theorem no_graph_no_export_witness:
  "nothing_to_export JUndefined \<and> nothing_to_export JNull \<and> nothing_to_export (JObj [])
   \<and> nothing_to_export (JObj [(''@graph'', JStr ''x'')]) \<and> nothing_to_export (payload [])
   \<and> export sample_plugin (sample_env created ''b'') JUndefined =
       \<lparr>trace = [LogInfo ''TropyToTumblr.export() received data:'' [AVal JUndefined],
                 LogInfo ''No items found in the Tropy export data.'' []],
        result = Inr ()\<rparr>
   \<and> export sample_plugin (sample_env created ''b'') (JObj [(''@graph'', JStr ''x'')]) =
       \<lparr>trace = [LogInfo ''TropyToTumblr.export() received data:''
                   [AVal (JObj [(''@graph'', JStr ''x'')])],
                 LogInfo ''No items found in the Tropy export data.'' []],
        result = Inr ()\<rparr>
   \<and> export sample_plugin (sample_env created ''b'') (payload []) =
       \<lparr>trace = [LogInfo ''TropyToTumblr.export() received data:'' [AVal (payload [])],
                 LogInfo ''No items found in the Tropy export data.'' []],
        result = Inr ()\<rparr>"
proof -
  have h: "nothing_to_export JUndefined" "nothing_to_export JNull" "nothing_to_export (JObj [])"
    "nothing_to_export (JObj [(''@graph'', JStr ''x'')])" "nothing_to_export (payload [])"
    by (simp_all add: nothing_to_export_def item_graph_def payload_def)
  from h no_graph_no_export [OF h(1), of sample_plugin "sample_env created ''b''"]
    no_graph_no_export [OF h(4), of sample_plugin "sample_env created ''b''"]
    no_graph_no_export [OF h(5), of sample_plugin "sample_env created ''b''"]
  show ?thesis by simp
qed

section \<open>The uploader and the answer of the platform\<close>

text \<open>
  Claim C3. When the platform answers and the body of the answer parses as JSON,
  the uploader returns the parsed body as it is if the status is a success (200 to
  299), and otherwise throws an \<open>Error\<close> whose message holds the decimal status code
  and the JSON serialisation of the body. So it returns normally exactly when the
  status is a success.
\<close>

theorem uploader_result_follows_status:
  "fetch e (build_request pl e ps c ts) = Resolves r \<Longrightarrow> json r = Inr j \<Longrightarrow>
   snd (postPhotosToTumblr pl e ps c ts) =
     (if ok r then Inr j
      else Inl (JsError ''Error''
                 (''Tumblr API error (status='' @ show_nat (status r) @ ''): '' @ stringify e j)))
   \<and> ((\<exists>v. snd (postPhotosToTumblr pl e ps c ts) = Inr v) \<longleftrightarrow> 200 \<le> status r \<and> status r < 300)"
  by (simp add: snd_post handle_response_def new_Error_def ok_def)

theorem uploader_result_follows_status_witness:
  "snd (postPhotosToTumblr sample_plugin (sample_env created ''b'') [''/photos/a.jpg''] [] [])
     = Inr (JObj [(''id'', JNum ''42'')])
   \<and> snd (postPhotosToTumblr sample_plugin (sample_env unauthorized ''b'') [''/photos/a.jpg''] [] [])
     = Inl (JsError ''Error'' ''Tumblr API error (status=401): {}'')"
proof -
  let ?ok = "\<lparr>status = 200, json = Inr (JObj [(''id'', JNum ''42'')])\<rparr>"
  let ?no = "\<lparr>status = 401, json = Inr (JObj [(''errors'', JStr ''Unauthorized'')])\<rparr>"
  have f1: "fetch (sample_env created ''b'')
      (build_request sample_plugin (sample_env created ''b'') [''/photos/a.jpg''] [] []) = Resolves ?ok"
    by (simp add: sample_env_def created_def)
  have f2: "fetch (sample_env unauthorized ''b'')
      (build_request sample_plugin (sample_env unauthorized ''b'') [''/photos/a.jpg''] [] []) = Resolves ?no"
    by (simp add: sample_env_def unauthorized_def)
  have s: "show_nat 401 = ''401''" by (simp add: show_nat.simps)
  have st: "stringify (sample_env unauthorized ''b'') (JObj [(''errors'', JStr ''Unauthorized'')]) = ''{}''"
    by (simp add: sample_env_def)
  from uploader_result_follows_status [OF f1, of "JObj [(''id'', JNum ''42'')]"]
    uploader_result_follows_status [OF f2, of "JObj [(''errors'', JStr ''Unauthorized'')]"] s st
  show ?thesis by (simp add: ok_def)
qed

text \<open>
  Claim C4. When the platform answers and the body of the answer does not parse as
  JSON, the uploader throws an \<open>Error\<close> whose message says that the response is not
  valid JSON and ends with the rendering of the parse error. The status of the answer
  plays no part: the parse is tried before the status is looked at.
\<close>

theorem unparseable_body_fails_first:
  "fetch e (build_request pl e ps c ts) = Resolves r \<Longrightarrow> json r = Inl parseErr \<Longrightarrow>
   snd (postPhotosToTumblr pl e ps c ts) =
     Inl (JsError ''Error'' (''Tumblr response is not valid JSON: '' @ err_string parseErr))"
  by (simp add: snd_post handle_response_def new_Error_def)

theorem unparseable_body_fails_first_witness:
  "snd (postPhotosToTumblr sample_plugin (sample_env garbled ''b'') [''/photos/a.jpg''] [] [])
     = Inl (JsError ''Error''
         ''Tumblr response is not valid JSON: FetchError: invalid json response body'')
   \<and> snd (postPhotosToTumblr sample_plugin
        (sample_env (Resolves \<lparr>status = 500, json = Inl (JsError ''SyntaxError'' [])\<rparr>) ''b'')
        [''/photos/a.jpg''] [] [])
     = Inl (JsError ''Error'' ''Tumblr response is not valid JSON: SyntaxError'')"
proof -
  let ?r1 = "\<lparr>status = 200, json = Inl (JsError ''FetchError'' ''invalid json response body'')\<rparr>"
  let ?r2 = "\<lparr>status = 500, json = Inl (JsError ''SyntaxError'' [])\<rparr>"
  have f1: "fetch (sample_env garbled ''b'')
      (build_request sample_plugin (sample_env garbled ''b'') [''/photos/a.jpg''] [] []) = Resolves ?r1"
    by (simp add: sample_env_def garbled_def)
  have f2: "fetch (sample_env (Resolves ?r2) ''b'')
      (build_request sample_plugin (sample_env (Resolves ?r2) ''b'') [''/photos/a.jpg''] [] [])
      = Resolves ?r2"
    by (simp add: sample_env_def)
  from unparseable_body_fails_first [OF f1, of "JsError ''FetchError'' ''invalid json response body''"]
    unparseable_body_fails_first [OF f2, of "JsError ''SyntaxError'' []"]
  show ?thesis by (simp add: err_string_def)
qed

section \<open>Failures of the uploader stay inside the hook\<close>

text \<open>
  Claim C5. When the hook calls the uploader and the uploader throws, whatever the
  error (a rejection of the request, an unparseable body, a failure status), the hook
  returns normally: its last step is the one \<open>error\<close> call of the logger, with the
  error's message (or the error itself when the message is empty), and nothing is
  rethrown to the host.
\<close>

theorem uploader_failure_is_logged:
  "Invoke ps c ts \<in> set (trace (export pl e d)) \<Longrightarrow>
   snd (postPhotosToTumblr pl e ps c ts) = Inl err \<Longrightarrow>
   result (export pl e d) = Inr ()
   \<and> last (trace (export pl e d)) =
       LogError ''Failed to post photos to Tumblr:''
         [if err_message err \<noteq> [] then AVal (JStr (err_message err)) else AErr err]
   \<and> length (filter (\<lambda>ev. case ev of LogError m as \<Rightarrow> True | _ \<Rightarrow> False)
         (trace (export pl e d))) = 1"
proof -
  assume inv: "Invoke ps c ts \<in> set (trace (export pl e d))"
    and fails: "snd (postPhotosToTumblr pl e ps c ts) = Inl err"
  from invoke_in_export [OF inv] have ne: "ps \<noteq> []" and c: "c = []"
    and ex: "export pl e d = post_and_log pl e d ps ts" by auto
  from fails c have "snd (postPhotosToTumblr pl e ps [] ts) = Inl err" by simp
  with ex ne show ?thesis
    by (simp add: post_and_log_result post_and_log_trace received_def posting_def)
qed

theorem uploader_failure_is_logged_witness:
  "Invoke [''/photos/a.jpg''] [] []
     \<in> set (trace (export sample_plugin (sample_env offline ''b'') (payload [item [''/photos/a.jpg''] []])))
   \<and> snd (postPhotosToTumblr sample_plugin (sample_env offline ''b'') [''/photos/a.jpg''] [] [])
       = Inl (JsError ''FetchError'' ''request failed'')
   \<and> result (export sample_plugin (sample_env offline ''b'') (payload [item [''/photos/a.jpg''] []]))
       = Inr ()
   \<and> last (trace (export sample_plugin (sample_env offline ''b'') (payload [item [''/photos/a.jpg''] []])))
       = LogError ''Failed to post photos to Tumblr:'' [AVal (JStr ''request failed'')]"
proof -
  let ?e = "sample_env offline ''b''"
  let ?d = "payload [item [''/photos/a.jpg''] []]"
  have inv: "Invoke [''/photos/a.jpg''] [] [] \<in> set (trace (export sample_plugin ?e ?d))"
    by (simp add: sample_defs export_defs offline_def)
  have fails: "snd (postPhotosToTumblr sample_plugin ?e [''/photos/a.jpg''] [] [])
      = Inl (JsError ''FetchError'' ''request failed'')"
    by (simp add: snd_post sample_env_def offline_def)
  from uploader_failure_is_logged [OF inv fails] inv fails show ?thesis by simp
qed

section \<open>The tags handed to the uploader\<close>

text \<open>
  Claim C6. The tags the hook passes to the uploader are, as a set, the tags of all
  items of the graph, and no primitive tag (so no tag string) occurs twice among
  them; when all tags are primitive the list has no duplicate at all. For items with
  the tags a, b, a and b, c the uploader receives a, b and c, each once.
\<close>

theorem uploader_tags_are_deduplicated:
  "item_graph d = Some (JArr nodes) \<Longrightarrow> Invoke ps c ts \<in> set (trace (export pl e d)) \<Longrightarrow>
   set ts = set (all_tags nodes)
   \<and> distinct (filter is_primitive ts)
   \<and> (list_all is_primitive (all_tags nodes) \<longrightarrow> distinct ts)"
proof -
  assume g: "item_graph d = Some (JArr nodes)"
    and inv: "Invoke ps c ts \<in> set (trace (export pl e d))"
  from invoke_in_export [OF inv] g have "graph_loop e nodes [] [] = Inr (ps, ts)" by auto
  from graph_loop_result [OF this] have ts: "ts = add_tags [] (all_tags nodes)" by simp
  then have s: "set ts = set (all_tags nodes)" by (simp add: set_add_tags)
  from ts have dp: "distinct (filter is_primitive ts)"
    using distinct_add_tags [of "[]" "all_tags nodes"] by simp
  have "distinct ts" if "list_all is_primitive (all_tags nodes)"
  proof -
    from that s have "list_all is_primitive ts" by (simp add: list_all_iff)
    from distinct_all_primitive [OF this] dp show ?thesis by simp
  qed
  with s dp show ?thesis by simp
qed

theorem uploader_tags_are_deduplicated_witness:
  "Invoke [''/photos/a.jpg''] [] [JStr ''a'', JStr ''b'', JStr ''c'']
     \<in> set (trace (export sample_plugin (sample_env created ''b'')
          (payload [item [''/photos/a.jpg''] [''a'', ''b'', ''a''], item [] [''b'', ''c'']])))
   \<and> all_tags [item [''/photos/a.jpg''] [''a'', ''b'', ''a''], item [] [''b'', ''c'']]
       = [JStr ''a'', JStr ''b'', JStr ''a'', JStr ''b'', JStr ''c'']
   \<and> set [JStr ''a'', JStr ''b'', JStr ''c'']
       = set (all_tags [item [''/photos/a.jpg''] [''a'', ''b'', ''a''], item [] [''b'', ''c'']])
   \<and> distinct [JStr ''a'', JStr ''b'', JStr ''c'']"
proof -
  let ?e = "sample_env created ''b''"
  let ?nodes = "[item [''/photos/a.jpg''] [''a'', ''b'', ''a''], item [] [''b'', ''c'']]"
  have inv: "Invoke [''/photos/a.jpg''] [] [JStr ''a'', JStr ''b'', JStr ''c'']
      \<in> set (trace (export sample_plugin ?e (payload ?nodes)))"
    by (simp add: sample_defs export_defs created_def)
  have tags: "all_tags ?nodes = [JStr ''a'', JStr ''b'', JStr ''a'', JStr ''b'', JStr ''c'']"
    by (simp add: all_tags_def node_tags_def item_def)
  from uploader_tags_are_deduplicated [OF item_graph_payload inv] inv tags
  show ?thesis by simp
qed

section \<open>The multipart body\<close>

text \<open>
  Claim C7. Every call of the uploader makes one request, whose body is: the field
  \<open>type\<close> with the value \<open>photo\<close>, the field \<open>caption\<close> with the caption passed in, a
  field \<open>tags\<close> exactly when the tag list is not empty (its value the tags joined by
  commas), and one file part per path of the path list, in order. The hook always
  passes the empty caption. With one path and no tags the body is the type field,
  an empty caption field and one file part.
\<close>

theorem multipart_body_parts:
  "(\<exists>req. fst (postPhotosToTumblr pl e ps c ts) = [Invoke ps c ts, Fetch req]
      \<and> req_body req =
          [TextField ''type'' ''photo'', TextField ''caption'' c]
          @ (if ts = [] then [] else [TextField ''tags'' (join ts)])
          @ map (FileStream ''data[]'') ps
      \<and> ((\<exists>v. TextField ''tags'' v \<in> set (req_body req)) \<longleftrightarrow> ts \<noteq> [])
      \<and> filter is_file (req_body req) = map (FileStream ''data[]'') ps
      \<and> length (filter is_file (req_body req)) = length ps)
   \<and> (\<forall>s ss. join (map JStr (s # ss)) = s @ concat (map ((@) '','') ss))
   \<and> (\<forall>d ps' c' ts'. Invoke ps' c' ts' \<in> set (trace (export pl e d)) \<longrightarrow> c' = [])"
proof (intro conjI allI impI)
  let ?req = "build_request pl e ps c ts"
  have body: "req_body ?req = build_form ps c ts" by (simp add: build_request_def)
  have "fst (postPhotosToTumblr pl e ps c ts) = [Invoke ps c ts, Fetch ?req]"
    by (rule fst_post)
  moreover have "req_body ?req =
          [TextField ''type'' ''photo'', TextField ''caption'' c]
          @ (if ts = [] then [] else [TextField ''tags'' (join ts)])
          @ map (FileStream ''data[]'') ps"
    by (simp add: body build_form_def)
  moreover have "(\<exists>v. TextField ''tags'' v \<in> set (req_body ?req)) \<longleftrightarrow> ts \<noteq> []"
    by (simp only: body tags_field_form)
  moreover have "filter is_file (req_body ?req) = map (FileStream ''data[]'') ps"
    by (simp only: body filter_is_file_form)
  moreover have "length (filter is_file (req_body ?req)) = length ps"
    by (simp only: body filter_is_file_form length_map)
  ultimately show "\<exists>req. fst (postPhotosToTumblr pl e ps c ts) = [Invoke ps c ts, Fetch req]
      \<and> req_body req =
          [TextField ''type'' ''photo'', TextField ''caption'' c]
          @ (if ts = [] then [] else [TextField ''tags'' (join ts)])
          @ map (FileStream ''data[]'') ps
      \<and> ((\<exists>v. TextField ''tags'' v \<in> set (req_body req)) \<longleftrightarrow> ts \<noteq> [])
      \<and> filter is_file (req_body req) = map (FileStream ''data[]'') ps
      \<and> length (filter is_file (req_body req)) = length ps"
    by blast
next
  fix s ss
  show "join (map JStr (s # ss)) = s @ concat (map ((@) '','') ss)"
    by (rule join_strings)
next
  fix d ps' c' ts'
  assume "Invoke ps' c' ts' \<in> set (trace (export pl e d))"
  from invoke_in_export [OF this] show "c' = []" by auto
qed

theorem multipart_body_parts_witness:
  "(\<exists>req. fst (postPhotosToTumblr sample_plugin (sample_env created ''b'') [''/photos/a.jpg''] [] [])
        = [Invoke [''/photos/a.jpg''] [] [], Fetch req]
      \<and> req_body req =
          [TextField ''type'' ''photo'', TextField ''caption'' [],
           FileStream ''data[]'' ''/photos/a.jpg''])
   \<and> Invoke [''/photos/a.jpg''] [] []
       \<in> set (trace (export sample_plugin (sample_env created ''b'')
                       (payload [item [''/photos/a.jpg''] []])))
   \<and> join [JStr ''a'', JStr ''b'', JStr ''c''] = ''a,b,c''"
proof -
  let ?e = "sample_env created ''b''"
  have inv: "Invoke [''/photos/a.jpg''] [] []
       \<in> set (trace (export sample_plugin ?e (payload [item [''/photos/a.jpg''] []])))"
    by (simp add: sample_defs export_defs created_def)
  from multipart_body_parts [of sample_plugin ?e "[''/photos/a.jpg'']" "[]" "[]"]
  obtain req where
    "fst (postPhotosToTumblr sample_plugin ?e [''/photos/a.jpg''] [] [])
        = [Invoke [''/photos/a.jpg''] [] [], Fetch req]"
    "req_body req = [TextField ''type'' ''photo'', TextField ''caption'' []]
          @ (if ([]::jsval list) = [] then [] else [TextField ''tags'' (join [])])
          @ map (FileStream ''data[]'') [''/photos/a.jpg'']"
    by blast
  then have "\<exists>req. fst (postPhotosToTumblr sample_plugin ?e [''/photos/a.jpg''] [] [])
        = [Invoke [''/photos/a.jpg''] [] [], Fetch req]
      \<and> req_body req =
          [TextField ''type'' ''photo'', TextField ''caption'' [],
           FileStream ''data[]'' ''/photos/a.jpg'']"
    by simp
  with inv show ?thesis by simp
qed

section \<open>The configuration\<close>

text \<open>
  Claim C8. The options of a constructed plugin are the defaults overridden by the
  options supplied: each of \<open>blogName\<close>, \<open>consumerKey\<close>, \<open>consumerSecret\<close>, \<open>token\<close> and
  \<open>tokenSecret\<close> is the supplied value when the supplied options have that key, and
  the placeholder default otherwise. The constructor has no failing branch.
\<close>

theorem options_override_defaults:
  "(\<forall>k. map_of (options (constructor opts)) k =
          (case map_of opts k of Some v \<Rightarrow> Some v | None \<Rightarrow> map_of defaults k))
   \<and> blogName (constructor opts) =
       (case map_of opts ''blogName'' of Some v \<Rightarrow> v | None \<Rightarrow> JStr ''YOUR_BLOG_NAME'')
   \<and> consumerKey (constructor opts) =
       (case map_of opts ''consumerKey'' of Some v \<Rightarrow> v
        | None \<Rightarrow> JStr ''YOUR_DEFAULT_CONSUMER_KEY'')
   \<and> consumerSecret (constructor opts) =
       (case map_of opts ''consumerSecret'' of Some v \<Rightarrow> v
        | None \<Rightarrow> JStr ''YOUR_DEFAULT_CONSUMER_SECRET'')
   \<and> token (constructor opts) =
       (case map_of opts ''token'' of Some v \<Rightarrow> v | None \<Rightarrow> JStr ''YOUR_DEFAULT_TOKEN'')
   \<and> tokenSecret (constructor opts) =
       (case map_of opts ''tokenSecret'' of Some v \<Rightarrow> v
        | None \<Rightarrow> JStr ''YOUR_DEFAULT_TOKEN_SECRET'')"
proof -
  have "map_of (options (constructor opts)) k =
          (case map_of opts k of Some v \<Rightarrow> Some v | None \<Rightarrow> map_of defaults k)" for k
    by (simp add: constructor_def Let_def spread_def merge_conv' map_add_def
             split: option.splits)
  moreover have "option_field defaults ''blogName'' = JStr ''YOUR_BLOG_NAME''"
    "option_field defaults ''consumerKey'' = JStr ''YOUR_DEFAULT_CONSUMER_KEY''"
    "option_field defaults ''consumerSecret'' = JStr ''YOUR_DEFAULT_CONSUMER_SECRET''"
    "option_field defaults ''token'' = JStr ''YOUR_DEFAULT_TOKEN''"
    "option_field defaults ''tokenSecret'' = JStr ''YOUR_DEFAULT_TOKEN_SECRET''"
    by (simp_all add: option_field_def defaults_def)
  ultimately show ?thesis
    by (simp add: constructor_def Let_def option_field_spread split: option.splits)
qed

theorem options_override_defaults_witness:
  "blogName (constructor [(''blogName'', JStr ''myblog''), (''token'', JStr ''t0'')])
     = JStr ''myblog''
   \<and> token (constructor [(''blogName'', JStr ''myblog''), (''token'', JStr ''t0'')]) = JStr ''t0''
   \<and> consumerKey (constructor [(''blogName'', JStr ''myblog''), (''token'', JStr ''t0'')])
     = JStr ''YOUR_DEFAULT_CONSUMER_KEY''
   \<and> consumerSecret (constructor []) = JStr ''YOUR_DEFAULT_CONSUMER_SECRET''
   \<and> tokenSecret (constructor []) = JStr ''YOUR_DEFAULT_TOKEN_SECRET''"
  using options_override_defaults [of "[(''blogName'', JStr ''myblog''), (''token'', JStr ''t0'')]"]
    options_override_defaults [of "[]"]
  by simp

section \<open>Errors of the extraction\<close>

text \<open>
  Claim C9, with the entries that throw narrowed to \<open>undefined\<close> and \<open>null\<close>. The
  \<open>try\<close> of the hook covers the call of the uploader only. For a payload with a
  graph in which some item is \<open>undefined\<close> or \<open>null\<close>, or has a photo array with an
  entry that is, the property read of the extraction throws a TypeError and the hook
  rejects with it: the host sees the error, and the only log call is the first
  \<open>info\<close>, so the error is not logged. For every other payload with a graph the hook
  returns normally: a photo entry that is a number, a string or a boolean throws
  nothing.
\<close>

theorem extraction_errors_reach_the_host:
  "item_graph d = Some (JArr nodes) \<Longrightarrow>
   ((\<exists>node\<in>set nodes. nullish node \<or> (\<exists>p\<in>set (photo_entries node). nullish p)) \<longrightarrow>
      (\<exists>err. err_name err = ''TypeError''
         \<and> export pl e d =
             \<lparr>trace = [LogInfo ''TropyToTumblr.export() received data:'' [AVal d]],
              result = Inl err\<rparr>))
   \<and> (\<not> (\<exists>node\<in>set nodes. nullish node \<or> (\<exists>p\<in>set (photo_entries node). nullish p)) \<longrightarrow>
        result (export pl e d) = Inr ())"
proof (intro conjI impI)
  assume g: "item_graph d = Some (JArr nodes)"
    and bad: "\<exists>node\<in>set nodes. nullish node \<or> (\<exists>p\<in>set (photo_entries node). nullish p)"
  from bad have ne: "nodes \<noteq> []" by auto
  from bad obtain err where err: "graph_loop e nodes [] [] = Inl err"
    using graph_loop_throws [of e nodes "[]" "[]"] unreadable_iff [of nodes] by blast
  from graph_loop_TypeError [OF err] have "err_name err = ''TypeError''" .
  moreover from export_graph [OF g ne, of pl e] err
  have "export pl e d =
      \<lparr>trace = [LogInfo ''TropyToTumblr.export() received data:'' [AVal d]], result = Inl err\<rparr>"
    by (simp add: received_def)
  ultimately show "\<exists>err. err_name err = ''TypeError''
         \<and> export pl e d =
             \<lparr>trace = [LogInfo ''TropyToTumblr.export() received data:'' [AVal d]],
              result = Inl err\<rparr>"
    by blast
next
  assume g: "item_graph d = Some (JArr nodes)"
    and good: "\<not> (\<exists>node\<in>set nodes. nullish node \<or> (\<exists>p\<in>set (photo_entries node). nullish p))"
  show "result (export pl e d) = Inr ()"
  proof (cases "nodes = []")
    case True
    with g have "nothing_to_export d" by (simp add: nothing_to_export_def)
    then show ?thesis by (simp add: export_nothing no_items_def)
  next
    case False
    from good have "\<not> (\<exists>err. graph_loop e nodes [] [] = Inl err)"
      using graph_loop_throws [of e nodes "[]" "[]"] unreadable_iff [of nodes] by blast
    then obtain ps ts where "graph_loop e nodes [] [] = Inr (ps, ts)"
      by (cases "graph_loop e nodes [] []") auto
    with export_graph [OF g False, of pl e] show ?thesis
      by (simp add: post_and_log_result)
  qed
qed

theorem extraction_errors_reach_the_host_witness:
  "(\<exists>err. err_name err = ''TypeError''
      \<and> export sample_plugin (sample_env created ''b'')
          (payload [item [''/photos/a.jpg''] [], JObj [(''photo'', JArr [JNull])]])
        = \<lparr>trace = [LogInfo ''TropyToTumblr.export() received data:''
                     [AVal (payload [item [''/photos/a.jpg''] [], JObj [(''photo'', JArr [JNull])]])]],
           result = Inl err\<rparr>)
   \<and> result (export sample_plugin (sample_env created ''b'')
        (payload [JObj [(''photo'', JArr [JNum ''42'', JStr ''x'', JBool True])]])) = Inr ()"
proof -
  let ?bad = "[item [''/photos/a.jpg''] [], JObj [(''photo'', JArr [JNull])]]"
  let ?good = "[JObj [(''photo'', JArr [JNum ''42'', JStr ''x'', JBool True])]]"
  have b: "\<exists>node\<in>set ?bad. nullish node \<or> (\<exists>p\<in>set (photo_entries node). nullish p)"
    by (simp add: photo_entries_def item_def)
  have g: "\<not> (\<exists>node\<in>set ?good. nullish node \<or> (\<exists>p\<in>set (photo_entries node). nullish p))"
    by (simp add: photo_entries_def)
  from extraction_errors_reach_the_host [OF item_graph_payload, of ?bad sample_plugin
      "sample_env created ''b''"] b
    extraction_errors_reach_the_host [OF item_graph_payload, of ?good sample_plugin
      "sample_env created ''b''"] g
  show ?thesis by blast
qed

text \<open>
  A photo entry that is not an object need not make the extraction throw: reading
  \<open>path\<close> from the number 42 gives \<open>undefined\<close>, the entry is skipped, and the hook
  logs that there are no local photos and returns normally.
\<close>

theorem non_object_photo_entry_is_skipped:
  "export sample_plugin (sample_env created ''b'')
     (JObj [(''@graph'', JArr [JObj [(''photo'', JArr [JNum ''42''])]])])
   = \<lparr>trace =
        [LogInfo ''TropyToTumblr.export() received data:''
           [AVal (JObj [(''@graph'', JArr [JObj [(''photo'', JArr [JNum ''42''])]])])],
         LogInfo ''No local photos found among the selected items.'' []],
      result = Inr ()\<rparr>"
  by (simp add: sample_defs export_defs created_def)

section \<open>The signature\<close>

text \<open>
  Claim C10. The request data given to the signing library has an empty parameter
  set, and neither it nor the token depends on the photo paths, the caption or the
  tags. For two calls of the uploader with the same credentials and blog name, and
  the same signing functions, nonce and timestamp, the signed parameters and the
  OAuth headers are equal, and so is every header of the two requests other than
  \<open>content-type\<close>, the \<open>Authorization\<close> header among them, whatever the paths,
  captions, tags and form boundaries of the two calls.
\<close>

theorem signature_ignores_the_body:
  assumes "oauth pl1 = oauth pl2" and "token pl1 = token pl2"
    and "tokenSecret pl1 = tokenSecret pl2" and "blogName pl1 = blogName pl2"
    and "authorize e1 = authorize e2" and "toHeader e1 = toHeader e2"
    and "nonce e1 = nonce e2" and "timestamp e1 = timestamp e2"
  shows "rd_data (requestData pl1) = []
    \<and> signed_params pl1 e1 = signed_params pl2 e2
    \<and> oauthHeaders pl1 e1 = oauthHeaders pl2 e2
    \<and> (\<exists>req1 req2.
         fst (postPhotosToTumblr pl1 e1 ps1 c1 ts1) = [Invoke ps1 c1 ts1, Fetch req1]
         \<and> fst (postPhotosToTumblr pl2 e2 ps2 c2 ts2) = [Invoke ps2 c2 ts2, Fetch req2]
         \<and> (\<forall>k. k \<noteq> ''content-type'' \<longrightarrow>
               map_of (req_headers req1) k = map_of (req_headers req2) k)
         \<and> map_of (req_headers req1) ''Authorization''
             = map_of (req_headers req2) ''Authorization'')"
proof -
  from assms have sp: "signed_params pl1 e1 = signed_params pl2 e2"
    by (simp add: signed_params_def requestData_def tokenObj_def post_url_def)
  with assms have oh: "oauthHeaders pl1 e1 = oauthHeaders pl2 e2"
    by (simp add: oauthHeaders_def)
  let ?r1 = "build_request pl1 e1 ps1 c1 ts1"
  let ?r2 = "build_request pl2 e2 ps2 c2 ts2"
  have hk: "map_of (req_headers ?r1) k = map_of (req_headers ?r2) k"
    if "k \<noteq> ''content-type''" for k
    using that oh by (simp add: headers_outside_content_type)
  then have auth: "map_of (req_headers ?r1) ''Authorization''
      = map_of (req_headers ?r2) ''Authorization''" by simp
  have "fst (postPhotosToTumblr pl1 e1 ps1 c1 ts1) = [Invoke ps1 c1 ts1, Fetch ?r1]"
    "fst (postPhotosToTumblr pl2 e2 ps2 c2 ts2) = [Invoke ps2 c2 ts2, Fetch ?r2]"
    by (rule fst_post)+
  with hk auth have "\<exists>req1 req2.
         fst (postPhotosToTumblr pl1 e1 ps1 c1 ts1) = [Invoke ps1 c1 ts1, Fetch req1]
         \<and> fst (postPhotosToTumblr pl2 e2 ps2 c2 ts2) = [Invoke ps2 c2 ts2, Fetch req2]
         \<and> (\<forall>k. k \<noteq> ''content-type'' \<longrightarrow>
               map_of (req_headers req1) k = map_of (req_headers req2) k)
         \<and> map_of (req_headers req1) ''Authorization''
             = map_of (req_headers req2) ''Authorization''"
    by blast
  moreover have "rd_data (requestData pl1) = []" by (simp add: requestData_def)
  ultimately show ?thesis using sp oh by simp
qed

theorem signature_ignores_the_body_witness:
  "signed_params sample_plugin (sample_env created ''b1'')
     = signed_params sample_plugin (sample_env offline ''b2'')
   \<and> (\<exists>req1 req2.
         fst (postPhotosToTumblr sample_plugin (sample_env created ''b1'') [''/photos/a.jpg''] [] [])
           = [Invoke [''/photos/a.jpg''] [] [], Fetch req1]
         \<and> fst (postPhotosToTumblr sample_plugin (sample_env offline ''b2'')
                  [''/x'', ''/y''] ''hello'' [JStr ''t''])
           = [Invoke [''/x'', ''/y''] ''hello'' [JStr ''t''], Fetch req2]
         \<and> map_of (req_headers req1) ''Authorization''
             = map_of (req_headers req2) ''Authorization'')
   \<and> map_of (req_headers (build_request sample_plugin (sample_env created ''b1'')
                 [''/photos/a.jpg''] [] [])) ''Authorization''
       = Some ''OAuth n01700000000''
   \<and> req_body (build_request sample_plugin (sample_env created ''b1'') [''/photos/a.jpg''] [] [])
       \<noteq> req_body (build_request sample_plugin (sample_env offline ''b2'')
             [''/x'', ''/y''] ''hello'' [JStr ''t''])"
proof -
  let ?e1 = "sample_env created ''b1''"
  let ?e2 = "sample_env offline ''b2''"
  have same: "authorize ?e1 = authorize ?e2" "toHeader ?e1 = toHeader ?e2"
    "nonce ?e1 = nonce ?e2" "timestamp ?e1 = timestamp ?e2"
    by (simp_all add: sample_env_def)
  have t: "show_nat 1700000000 = ''1700000000''" by (simp add: show_nat.simps)
  have hdr: "map_of (req_headers (build_request sample_plugin ?e1 [''/photos/a.jpg''] [] []))
      ''Authorization'' = Some ''OAuth n01700000000''"
    by (simp add: sample_defs export_defs t)
  have body: "req_body (build_request sample_plugin ?e1 [''/photos/a.jpg''] [] [])
       \<noteq> req_body (build_request sample_plugin ?e2 [''/x'', ''/y''] ''hello'' [JStr ''t''])"
    by (simp add: build_request_def build_form_def)
  from signature_ignores_the_body [OF refl refl refl refl same,
      of sample_plugin "[''/photos/a.jpg'']" "[]" "[]" "[''/x'', ''/y'']" "''hello''" "[JStr ''t'']"]
    hdr body
  show ?thesis by blast
qed

end
